theory Spec2Isabelle
  imports Main
begin

section \<open>Mini-URL: the request handlers of main.py\<close>

text \<open>
  main.py is a Flask application: a user table behind SQLAlchemy, a login session kept by
  flask_login, password hashes made by flask_bcrypt, and a lookup of short codes that the
  module \<open>utility\<close> provides. Every handler is modelled as a function from the request and
  the state it can read or write to the response and the state afterwards.

  Python strings are modelled as \<open>string\<close>; one character of the model stands for one code
  point, so that \<open>length\<close> is Python's \<open>len\<close>.
\<close>

subsection \<open>The user table\<close>

text \<open>
  \<open>class User(db.Model, UserMixin)\<close>: the columns \<open>id\<close> (integer primary key),
  \<open>username\<close> (unique), \<open>password\<close> and \<open>email\<close>. The field \<open>password\<close> holds what
  \<open>register\<close> stores there. The table is the list of its rows in the order of their
  insertion, which is the order of their primary keys.
\<close>

record user =
  user_id :: nat
  username :: string
  password :: string
  email :: string

text \<open>\<open>User.query.filter_by(username=...)\<close> and \<open>User.query.filter_by(email=...)\<close>.\<close>

definition filter_by_username :: "user list \<Rightarrow> string \<Rightarrow> user list" where
  "filter_by_username us u = filter (\<lambda>r. username r = u) us"

definition filter_by_email :: "user list \<Rightarrow> string \<Rightarrow> user list" where
  "filter_by_email us e = filter (\<lambda>r. email r = e) us"

text \<open>\<open>Query.first()\<close>: the first row of the result, or Python's \<open>None\<close>.\<close>

definition first :: "'a list \<Rightarrow> 'a option" where
  "first rows = (case rows of [] \<Rightarrow> None | r # _ \<Rightarrow> Some r)"

text \<open>
  Python's \<open>a or b\<close> on query results: a row is truthy and \<open>None\<close> is falsy, and \<open>b\<close> is
  evaluated only when \<open>a\<close> is \<open>None\<close>.
\<close>

definition py_or :: "'a option \<Rightarrow> 'a option \<Rightarrow> 'a option" where
  "py_or a b = (case a of Some r \<Rightarrow> Some r | None \<Rightarrow> b)"

text \<open>
  \<open>check_username\<close> and \<open>check_email\<close>: \<open>not (... .first())\<close>, true when no row has the
  name or the address.
\<close>

definition check_username :: "user list \<Rightarrow> string \<Rightarrow> bool" where
  "check_username us u = (first (filter_by_username us u) = None)"

definition check_email :: "user list \<Rightarrow> string \<Rightarrow> bool" where
  "check_email us e = (first (filter_by_email us e) = None)"

text \<open>
  \<open>db.session.add(new_user); db.session.commit()\<close>. The database gives the row its primary
  key, one more than the largest key of the table. The column \<open>username\<close> is declared
  \<open>unique=True\<close>: a commit of a second row with a stored name raises \<open>IntegrityError\<close>.
  The column \<open>email\<close> has no such constraint.
\<close>

datatype db_error = IntegrityError

definition next_id :: "user list \<Rightarrow> nat" where
  "next_id us = Suc (foldr max (map user_id us) 0)"

definition add_commit :: "user list \<Rightarrow> string \<Rightarrow> string \<Rightarrow> string \<Rightarrow> db_error + user list" where
  "add_commit us u pw e =
     (if u \<in> set (map username us) then Inl IntegrityError
      else Inr (us @ [\<lparr>user_id = next_id us, username = u, password = pw, email = e\<rparr>]))"

text \<open>\<open>load_user\<close>: \<open>User.query.get(int(user_id))\<close>, the row with that primary key.\<close>

definition load_user :: "user list \<Rightarrow> nat \<Rightarrow> user option" where
  "load_user us i = first (filter (\<lambda>r. user_id r = i) us)"

subsection \<open>The password hasher\<close>

text \<open>
  \<open>bcrypt = Bcrypt(app)\<close> is an object of the library flask_bcrypt, which is not part of
  the repository. It is a parameter of the model: \<open>generate_password_hash\<close> takes the salt
  the library draws at random and the password, \<open>check_password_hash\<close> a stored hash and a
  candidate password.
\<close>

record bcrypt =
  generate_password_hash :: "nat \<Rightarrow> string \<Rightarrow> string"
  check_password_hash :: "string \<Rightarrow> string \<Rightarrow> bool"

subsection \<open>Requests, responses and the state\<close>

text \<open>
  A request: \<open>request.method\<close>, \<open>request.form\<close> and the outcome of the CSRF check that a
  \<open>FlaskForm\<close> performs on its hidden token field.
\<close>

datatype http_method = GET | POST

record request =
  request_method :: http_method
  form :: "string \<rightharpoonup> string"
  csrf_valid :: bool

text \<open>
  What a handler returns: a rendered template (by its name), a redirect (by its target),
  a string as the body, or the error response that Flask makes of an exception
  (400 for a missing form key, 500 for any other).
\<close>

datatype response =
    render_template string
  | redirect string
  | body string
  | bad_request
  | internal_server_error

text \<open>
  Modelled from the spec: the store behind the module \<open>utility\<close>, which is not among the
  sources. It is the spec's UrlMapping: short codes are unique keys, and each has one long
  URL.
\<close>

type_synonym url_mapping = "string \<rightharpoonup> string"

text \<open>
  The state: the user table, the user id that flask_login keeps in the session of the client
  who sends the requests, and the store of short codes.
\<close>

record app_state =
  users :: "user list"
  session_user_id :: "nat option"
  url_store :: url_mapping

text \<open>
  \<open>url_for\<close>, from the \<open>@app.route\<close> lines: the route of \<open>dashboard\<close> is /dasboard, and the
  routes of \<open>login\<close>, \<open>logout\<close>, \<open>register\<close> and \<open>url\<close> are their names. The handlers
  call it on \<open>dashboard\<close> and \<open>login\<close> only.
\<close>

definition url_for :: "string \<Rightarrow> string" where
  "url_for endpoint = (if endpoint = ''dashboard'' then ''/dasboard'' else ''/'' @ endpoint)"

subsection \<open>The forms\<close>

text \<open>
  \<open>field.data\<close> of a string field. A field the request does not carry fails
  \<open>InputRequired\<close> like an empty one, so both are the empty string here.
\<close>

definition field_data :: "request \<Rightarrow> string \<Rightarrow> string" where
  "field_data req name = (case form req name of None \<Rightarrow> [] | Some v \<Rightarrow> v)"

text \<open>The validators \<open>InputRequired()\<close> and \<open>Length(min=..., max=...)\<close> of wtforms.\<close>

definition InputRequired :: "string \<Rightarrow> bool" where
  "InputRequired d = (d \<noteq> [])"

definition Length :: "nat \<Rightarrow> nat \<Rightarrow> string \<Rightarrow> bool" where
  "Length lo hi d = (lo \<le> length d \<and> length d \<le> hi)"

text \<open>
  What a call of a validator does: it returns, or it raises \<open>ValidationError\<close>. wtforms
  fails a field only on a raised error and discards what a validator returns.
\<close>

datatype validator_outcome = Returned "string option" | Raised string

definition accepted :: "validator_outcome \<Rightarrow> bool" where
  "accepted r = (case r of Returned _ \<Rightarrow> True | Raised _ \<Rightarrow> False)"

text \<open>
  \<open>RegisterForm.validate_username\<close>: when a row has the name, the method builds a
  \<open>ValidationError\<close> and returns it; it raises nothing.
\<close>

definition validate_username :: "user list \<Rightarrow> string \<Rightarrow> validator_outcome" where
  "validate_username us d =
     (case first (filter_by_username us d) of
        Some _ \<Rightarrow> Returned (Some ''That username is already exists. Please choose a different one.'')
      | None \<Rightarrow> Returned None)"

text \<open>
  \<open>form.validate_on_submit()\<close>: the request is a POST, the CSRF token is valid, and every
  field passes its validators (for \<open>username\<close> of \<open>RegisterForm\<close> the inline validator
  \<open>validate_username\<close> too).
\<close>

definition RegisterForm_validate_on_submit :: "user list \<Rightarrow> request \<Rightarrow> bool" where
  "RegisterForm_validate_on_submit us req =
     (request_method req = POST \<and> csrf_valid req
      \<and> InputRequired (field_data req ''username'') \<and> Length 4 36 (field_data req ''username'')
      \<and> accepted (validate_username us (field_data req ''username''))
      \<and> InputRequired (field_data req ''password'') \<and> Length 8 16 (field_data req ''password'')
      \<and> InputRequired (field_data req ''email'') \<and> Length 8 16 (field_data req ''email''))"

definition LoginForm_validate_on_submit :: "request \<Rightarrow> bool" where
  "LoginForm_validate_on_submit req =
     (request_method req = POST \<and> csrf_valid req
      \<and> InputRequired (field_data req ''username'') \<and> Length 4 36 (field_data req ''username'')
      \<and> InputRequired (field_data req ''password'') \<and> Length 8 16 (field_data req ''password''))"

subsection \<open>The lookup of a short code\<close>

text \<open>
  Modelled from the spec: \<open>get_long_url\<close> of the module \<open>utility\<close>, which is not among the
  sources. The spec's \<open>resolve\<close> looks the short code up in the mapping store and returns
  the stored long URL on a hit and a NotFound result on a miss. \<open>NotFound\<close> is the value
  \<open>False\<close> that \<open>redirection\<close> tests for.
\<close>

datatype lookup_result = NotFound | LongUrl string

definition get_long_url :: "url_mapping \<Rightarrow> string \<Rightarrow> lookup_result" where
  "get_long_url store short_url =
     (case store short_url of None \<Rightarrow> NotFound | Some long_url \<Rightarrow> LongUrl long_url)"

subsection \<open>The handlers\<close>

text \<open>\<open>home\<close>, for the routes /, /home and /index.\<close>

definition home :: "app_state \<Rightarrow> response \<times> app_state" where
  "home s = (render_template ''base.html'', s)"

text \<open>
  \<open>url\<close>, for /url. \<open>request.form['url']\<close> raises on a form without the key, which Flask
  answers with 400.
\<close>

definition url :: "request \<Rightarrow> app_state \<Rightarrow> response \<times> app_state" where
  "url req s =
     (if request_method req = POST then
        (case form req ''url'' of
           None \<Rightarrow> (bad_request, s)
         | Some v \<Rightarrow> (body v, s))
      else (render_template ''url_page.html'', s))"

text \<open>
  \<open>login\<close>, for /login. \<open>login_user(user)\<close> writes the user's id into the session.
\<close>

definition login :: "bcrypt \<Rightarrow> request \<Rightarrow> app_state \<Rightarrow> response \<times> app_state" where
  "login B req s =
     (if LoginForm_validate_on_submit req then
        (case py_or (first (filter_by_username (users s) (field_data req ''username'')))
                    (first (filter_by_email (users s) (field_data req ''username''))) of
           Some user \<Rightarrow>
             if check_password_hash B (password user) (field_data req ''password'')
             then (redirect (url_for ''dashboard''), s\<lparr>session_user_id := Some (user_id user)\<rparr>)
             else (render_template ''userauth/login/login_wrong_info.html'', s)
         | None \<Rightarrow> (render_template ''userauth/login/login.html'', s))
      else (render_template ''userauth/login/login.html'', s))"

text \<open>
  \<open>@login_required\<close>: the wrapped handler runs when the session's user id loads a user;
  otherwise flask_login redirects to the login view with the path asked for.
\<close>

definition is_authenticated :: "app_state \<Rightarrow> bool" where
  "is_authenticated s =
     (case session_user_id s of None \<Rightarrow> False | Some i \<Rightarrow> load_user (users s) i \<noteq> None)"

definition dashboard :: "app_state \<Rightarrow> response \<times> app_state" where
  "dashboard s =
     (if is_authenticated s then (render_template ''user/dashboard.html'', s)
      else (redirect (url_for ''login'' @ ''?next=%2Fdasboard''), s))"

definition logout :: "app_state \<Rightarrow> response \<times> app_state" where
  "logout s =
     (if is_authenticated s then (redirect (url_for ''login''), s\<lparr>session_user_id := None\<rparr>)
      else (redirect (url_for ''login'' @ ''?next=%2Flogout''), s))"

text \<open>
  \<open>register\<close>, for /register. The third argument is the salt that
  \<open>bcrypt.generate_password_hash\<close> draws.
\<close>

definition register :: "bcrypt \<Rightarrow> nat \<Rightarrow> request \<Rightarrow> app_state \<Rightarrow> response \<times> app_state" where
  "register B salt req s =
     (if RegisterForm_validate_on_submit (users s) req then
        if \<not> check_username (users s) (field_data req ''username'')
        then (render_template ''userauth/register/register_username_exists.html'', s)
        else if \<not> check_email (users s) (field_data req ''email'')
        then (render_template ''userauth/register/register_email_exists.html'', s)
        else
          (let hashed_password = generate_password_hash B salt (field_data req ''password'')
           in case add_commit (users s) (field_data req ''username'') hashed_password
                     (field_data req ''email'') of
                Inl _ \<Rightarrow> (internal_server_error, s)
              | Inr us \<Rightarrow> (redirect (url_for ''login''), s\<lparr>users := us\<rparr>))
      else (render_template ''userauth/register/register.html'', s))"

text \<open>
  The two steps of \<open>register\<close>. Lines 147 to 153 read the table: they validate the form, run
  the two checks and hash the password, and end with a response or with the row to add.
  Lines 154 to 156 write: they add the row and commit. The server handles requests
  concurrently, so between the two steps of one request another request can be handled.
\<close>

definition register_checks ::
    "bcrypt \<Rightarrow> nat \<Rightarrow> request \<Rightarrow> user list \<Rightarrow> response + (string \<times> string \<times> string)" where
  "register_checks B salt req us =
     (if RegisterForm_validate_on_submit us req then
        if \<not> check_username us (field_data req ''username'')
        then Inl (render_template ''userauth/register/register_username_exists.html'')
        else if \<not> check_email us (field_data req ''email'')
        then Inl (render_template ''userauth/register/register_email_exists.html'')
        else Inr (field_data req ''username'',
                  generate_password_hash B salt (field_data req ''password''),
                  field_data req ''email'')
      else Inl (render_template ''userauth/register/register.html''))"

definition register_commit :: "string \<times> string \<times> string \<Rightarrow> app_state \<Rightarrow> response \<times> app_state" where
  "register_commit new_user s =
     (case new_user of (u, hashed_password, e) \<Rightarrow>
        (case add_commit (users s) u hashed_password e of
           Inl _ \<Rightarrow> (internal_server_error, s)
         | Inr us \<Rightarrow> (redirect (url_for ''login''), s\<lparr>users := us\<rparr>)))"

text \<open>\<open>redirection\<close>, for /<short_url>.\<close>

definition redirection :: "string \<Rightarrow> app_state \<Rightarrow> response \<times> app_state" where
  "redirection short_url s =
     (case get_long_url (url_store s) short_url of
        NotFound \<Rightarrow> (render_template ''error/urlnotfound.html'', s)
      | LongUrl long_url \<Rightarrow> (redirect long_url, s))"

text \<open>
  \<open>all_urls\<close> and \<open>all_docs\<close>, the two routes for tests. \<open>get_all_docs\<close> is of the module
  \<open>utility\<close> too; by its name and the comment in main.py ("grab all urls from the database
  and display them") it reads the store and writes nothing.
\<close>

definition all_urls :: "app_state \<Rightarrow> response \<times> app_state" where
  "all_urls s = (render_template ''dev/all_urls.html'', s)"

definition all_docs :: "app_state \<Rightarrow> response \<times> app_state" where
  "all_docs s = (render_template ''dev/all_docs.html'', s)"

subsection \<open>Histories of requests\<close>

text \<open>
  One request to one route, and the state after a list of them, each handled in the state
  the one before left.
\<close>

datatype event =
    Home
  | Url request
  | Login request
  | Dashboard
  | Logout
  | Register nat request
  | Redirection string
  | AllUrls
  | AllDocs

fun handle :: "bcrypt \<Rightarrow> event \<Rightarrow> app_state \<Rightarrow> response \<times> app_state" where
  "handle B Home s = home s"
| "handle B (Url req) s = url req s"
| "handle B (Login req) s = login B req s"
| "handle B Dashboard s = dashboard s"
| "handle B Logout s = logout s"
| "handle B (Register salt req) s = register B salt req s"
| "handle B (Redirection short_url) s = redirection short_url s"
| "handle B AllUrls s = all_urls s"
| "handle B AllDocs s = all_docs s"

fun run :: "bcrypt \<Rightarrow> event list \<Rightarrow> app_state \<Rightarrow> app_state" where
  "run B [] s = s"
| "run B (e # es) s = run B es (snd (handle B e s))"

subsection \<open>Concrete requests and states\<close>

text \<open>
  The inputs on which the theorems below are run. \<open>post_form\<close> is a POST with the given
  form fields and a valid CSRF token; \<open>no_data\<close> is the state with an empty user table, no
  login and an empty store, and \<open>one_mapping\<close> the same with one short code in the store.
  \<open>sample_bcrypt\<close> stands in for the hasher where a run needs one: it is not bcrypt, and has
  of it only the fixed length of 60 characters of a hash. \<open>alice_registered\<close> is the state
  that the registration of alice leaves, with the hash that \<open>sample_bcrypt\<close> makes.
  \<open>carol_and_bob\<close> is the state after two registrations: the email of the first user is
  the username of the second.
\<close>

abbreviation post_form :: "(string \<times> string) list \<Rightarrow> request" where
  "post_form kvs \<equiv> \<lparr>request_method = POST, form = map_of kvs, csrf_valid = True\<rparr>"

abbreviation register_form :: "string \<Rightarrow> string \<Rightarrow> string \<Rightarrow> request" where
  "register_form u pw e \<equiv> post_form [(''username'', u), (''password'', pw), (''email'', e)]"

abbreviation login_form :: "string \<Rightarrow> string \<Rightarrow> request" where
  "login_form u pw \<equiv> post_form [(''username'', u), (''password'', pw)]"

abbreviation no_data :: app_state where
  "no_data \<equiv> \<lparr>users = [], session_user_id = None, url_store = Map.empty\<rparr>"

abbreviation one_mapping :: app_state where
  "one_mapping \<equiv>
     \<lparr>users = [], session_user_id = None,
      url_store = [''k3F9'' \<mapsto> ''https://example.com/a'']\<rparr>"

abbreviation sample_bcrypt :: bcrypt where
  "sample_bcrypt \<equiv>
     \<lparr>generate_password_hash = (\<lambda>salt pw. take 60 (''$2b$12$'' @ pw @ replicate 60 (CHR ''.''))),
      check_password_hash = (\<lambda>h pw. h = take 60 (''$2b$12$'' @ pw @ replicate 60 (CHR ''.'')))\<rparr>"

abbreviation alice_registered :: app_state where
  "alice_registered \<equiv>
     \<lparr>users = [\<lparr>user_id = 1, username = ''alice'',
                password = ''$2b$12$pw12345678...........................................'',
                email = ''alice@x.com''\<rparr>],
      session_user_id = None, url_store = Map.empty\<rparr>"

abbreviation carol_row :: user where
  "carol_row \<equiv>
     \<lparr>user_id = 1, username = ''carol'',
      password = ''$2b$12$carolpw123...........................................'',
      email = ''bob@y.com''\<rparr>"

abbreviation bob_row :: user where
  "bob_row \<equiv>
     \<lparr>user_id = 2, username = ''bob@y.com'',
      password = ''$2b$12$bobspw1234...........................................'',
      email = ''bob2@y.com''\<rparr>"

abbreviation carol_and_bob :: app_state where
  "carol_and_bob \<equiv>
     \<lparr>users = [carol_row, bob_row], session_user_id = None, url_store = Map.empty\<rparr>"

section \<open>Properties\<close>

subsection \<open>Queries and forms\<close>

lemma first_filter_None: "(first (filter P xs) = None) = (\<forall>x\<in>set xs. \<not> P x)"
  by (induction xs) (auto simp: first_def)

lemma check_username_iff: "check_username us u = (u \<notin> set (map username us))"
  by (auto simp: check_username_def filter_by_username_def first_filter_None)

lemma check_email_iff: "check_email us e = (e \<notin> set (map email us))"
  by (auto simp: check_email_def filter_by_email_def first_filter_None)

text \<open>
  The inline validator of \<open>RegisterForm\<close> never fails the form: what it builds for a taken
  name is returned, not raised.
\<close>

lemma accepted_validate_username: "accepted (validate_username us d)"
  by (simp add: accepted_def validate_username_def split: option.splits)

subsection \<open>The paths of register\<close>

text \<open>
  The four ways through \<open>register\<close>. The commit cannot raise \<open>IntegrityError\<close>: it is
  reached only after \<open>check_username\<close> found the name free.
\<close>

lemma register_cases:
  "register B salt req s =
     (if \<not> RegisterForm_validate_on_submit (users s) req
      then (render_template ''userauth/register/register.html'', s)
      else if field_data req ''username'' \<in> set (map username (users s))
      then (render_template ''userauth/register/register_username_exists.html'', s)
      else if field_data req ''email'' \<in> set (map email (users s))
      then (render_template ''userauth/register/register_email_exists.html'', s)
      else (redirect (url_for ''login''),
            s\<lparr>users := users s @ [\<lparr>user_id = next_id (users s),
                 username = field_data req ''username'',
                 password = generate_password_hash B salt (field_data req ''password''),
                 email = field_data req ''email''\<rparr>]\<rparr>))"
  by (simp add: register_def check_username_iff check_email_iff add_commit_def)

lemma register_never_integrity_error:
  "fst (register B salt req s) \<noteq> internal_server_error"
  by (simp add: register_cases)

subsection \<open>What the handlers leave unchanged\<close>

lemma url_store_handle: "url_store (snd (handle B e s)) = url_store s"
  by (cases e)
     (simp_all add: home_def url_def login_def dashboard_def logout_def register_cases
        redirection_def all_urls_def all_docs_def split: option.splits lookup_result.splits)

lemma url_store_run: "url_store (run B es s) = url_store s"
  by (induction es arbitrary: s) (simp_all add: url_store_handle)

lemma users_login: "users (snd (login B req s)) = users s"
  by (simp add: login_def split: option.splits)

lemma register_keeps_unique:
  assumes "distinct (map username (users s))" and "distinct (map email (users s))"
  shows "distinct (map username (users (snd (register B salt req s))))
       \<and> distinct (map email (users (snd (register B salt req s))))"
  using assms by (simp add: register_cases)

lemma handle_keeps_unique:
  assumes "distinct (map username (users s))" and "distinct (map email (users s))"
  shows "distinct (map username (users (snd (handle B e s))))
       \<and> distinct (map email (users (snd (handle B e s))))"
proof (cases e)
  case (Register salt req)
  then show ?thesis using register_keeps_unique [OF assms] by simp
next
  case (Login req)
  then show ?thesis using assms by (simp add: users_login)
qed (use assms in \<open>simp_all add: home_def url_def dashboard_def logout_def
        redirection_def all_urls_def all_docs_def split: option.splits lookup_result.splits\<close>)

text \<open>The equations that run a handler on a concrete request and state.\<close>

lemmas run_simps =
  register_cases RegisterForm_validate_on_submit_def LoginForm_validate_on_submit_def
  accepted_validate_username field_data_def InputRequired_def Length_def next_id_def
  url_for_def login_def py_or_def first_def filter_by_username_def filter_by_email_def
  url_def redirection_def get_long_url_def eval_nat_numeral

subsection \<open>The /url handler and the lookup\<close>

text \<open>
  C10. A POST to /url that carries a form value \<open>url\<close> answers with that value, unchanged,
  as the body of the response, and leaves the whole state as it was: the store of short
  codes gets no new mapping.
\<close>

theorem url_post_echoes_and_writes_nothing:
  assumes "request_method req = POST" and "form req ''url'' = Some v"
  shows "url req s = (body v, s) \<and> url_store (snd (url req s)) = url_store s"
  using assms by (simp add: url_def)

theorem url_post_echoes_and_writes_nothing_witness:
  "request_method (post_form [(''url'', ''https://example.com/a'')]) = POST
   \<and> form (post_form [(''url'', ''https://example.com/a'')]) ''url'' = Some ''https://example.com/a''
   \<and> url (post_form [(''url'', ''https://example.com/a'')]) one_mapping
       = (body ''https://example.com/a'', one_mapping)
   \<and> url_store (snd (url (post_form [(''url'', ''https://example.com/a'')]) one_mapping))
       = url_store one_mapping"
proof -
  have m: "request_method (post_form [(''url'', ''https://example.com/a'')]) = POST"
    by simp
  have f: "form (post_form [(''url'', ''https://example.com/a'')]) ''url''
             = Some ''https://example.com/a''"
    by simp
  show ?thesis
    using m f url_post_echoes_and_writes_nothing [OF m f, of one_mapping] by simp
qed




text \<open>
  C2. A short code that the store does not hold, and that no allocation put there: after
  any list of requests to the handlers of main.py, its lookup returns the value \<open>NotFound\<close>
  (a result, not an exception), and \<open>redirection\<close> answers with the not-found page.
\<close>

theorem unallocated_code_not_found:
  assumes "url_store s0 code = None"
  shows "get_long_url (url_store (run B es s0)) code = NotFound
       \<and> redirection code (run B es s0)
           = (render_template ''error/urlnotfound.html'', run B es s0)"
  using assms by (simp add: redirection_def get_long_url_def url_store_run)

theorem unallocated_code_not_found_witness:
  "url_store one_mapping ''zzzz'' = None
   \<and> get_long_url
         (url_store (run sample_bcrypt
            [Url (post_form [(''url'', ''zzzz'')]), Redirection ''k3F9''] one_mapping))
         ''zzzz'' = NotFound
   \<and> redirection ''zzzz''
         (run sample_bcrypt [Url (post_form [(''url'', ''zzzz'')]), Redirection ''k3F9''] one_mapping)
       = (render_template ''error/urlnotfound.html'',
          run sample_bcrypt [Url (post_form [(''url'', ''zzzz'')]), Redirection ''k3F9''] one_mapping)"
proof -
  have h: "url_store one_mapping ''zzzz'' = None"
    by simp
  show ?thesis
    using h unallocated_code_not_found [OF h, of sample_bcrypt
        "[Url (post_form [(''url'', ''zzzz'')]), Redirection ''k3F9'']"]
    by simp
qed

subsection \<open>Registration\<close>

text \<open>
  C4 as the spec states it: after a successful \<open>register\<close> of a username, any second call
  with that username is answered with username-taken. It fails on the code: the form is
  validated before the checks, and a second submission that the form refuses (here a
  password of five characters, and the email of seven characters of the spec's own scenario)
  is answered with the registration form, not with the username-exists page.
\<close>

theorem register_twice_refused_form_counterexample:
  "register sample_bcrypt 0 (register_form ''alice'' ''pw12345678'' ''alice@x.com'') no_data
       = (redirect (url_for ''login''), alice_registered)
   \<and> register sample_bcrypt 1 (register_form ''alice'' ''short'' ''other@y.com'') alice_registered
       = (render_template ''userauth/register/register.html'', alice_registered)
   \<and> register sample_bcrypt 1 (register_form ''alice'' ''other1234'' ''b@y.com'') alice_registered
       = (render_template ''userauth/register/register.html'', alice_registered)
   \<and> render_template ''userauth/register/register.html''
       \<noteq> render_template ''userauth/register/register_username_exists.html''"
  by (simp add: run_simps)

text \<open>
  C4, amended. After a successful \<open>register\<close> of a username, a second submission with the
  same username, handled in the state the first one left, is answered with the
  username-exists page when it passes the validation of the form, and with the registration
  form when it does not; in both cases nothing is written. The two checks are independent
  predicates, each of its own column of the table, and \<open>register\<close> changes the table only
  when both held in the state before.
\<close>

theorem register_twice_username_taken:
  assumes "register B salt1 req1 s = (redirect (url_for ''login''), s1)"
    and "field_data req2 ''username'' = field_data req1 ''username''"
  shows "register B salt2 req2 s1
           = (if RegisterForm_validate_on_submit (users s1) req2
              then (render_template ''userauth/register/register_username_exists.html'', s1)
              else (render_template ''userauth/register/register.html'', s1))
       \<and> check_username us u = (u \<notin> set (map username us))
       \<and> check_email us e = (e \<notin> set (map email us))
       \<and> (users (snd (register B salt req s')) \<noteq> users s' \<longrightarrow>
            check_username (users s') (field_data req ''username'')
          \<and> check_email (users s') (field_data req ''email''))"
proof -
  have "field_data req1 ''username'' \<in> set (map username (users s1))"
    using assms(1) by (auto simp: register_cases split: if_splits)
  then have "register B salt2 req2 s1
           = (if RegisterForm_validate_on_submit (users s1) req2
              then (render_template ''userauth/register/register_username_exists.html'', s1)
              else (render_template ''userauth/register/register.html'', s1))"
    using assms(2) by (simp add: register_cases)
  moreover have "users (snd (register B salt req s')) \<noteq> users s' \<longrightarrow>
            check_username (users s') (field_data req ''username'')
          \<and> check_email (users s') (field_data req ''email'')"
    by (simp add: register_cases check_username_iff check_email_iff)
  ultimately show ?thesis by (simp add: check_username_iff check_email_iff)
qed

theorem register_twice_username_taken_witness:
  "register sample_bcrypt 0 (register_form ''alice'' ''pw12345678'' ''alice@x.com'') no_data
       = (redirect (url_for ''login''), alice_registered)
   \<and> field_data (register_form ''alice'' ''other1234'' ''other@y.com'') ''username''
       = field_data (register_form ''alice'' ''pw12345678'' ''alice@x.com'') ''username''
   \<and> RegisterForm_validate_on_submit (users alice_registered)
         (register_form ''alice'' ''other1234'' ''other@y.com'')
   \<and> register sample_bcrypt 1 (register_form ''alice'' ''other1234'' ''other@y.com'') alice_registered
       = (render_template ''userauth/register/register_username_exists.html'', alice_registered)
   \<and> \<not> check_username (users alice_registered) ''alice''
   \<and> check_email (users alice_registered) ''other@y.com''
   \<and> users (snd (register sample_bcrypt 0
                    (register_form ''alice'' ''pw12345678'' ''alice@x.com'') no_data))
       \<noteq> users no_data
   \<and> check_username (users no_data) ''alice''
   \<and> check_email (users no_data) ''alice@x.com''"
proof -
  have h1: "register sample_bcrypt 0 (register_form ''alice'' ''pw12345678'' ''alice@x.com'') no_data
              = (redirect (url_for ''login''), alice_registered)"
    by (simp add: run_simps)
  have h2: "RegisterForm_validate_on_submit (users alice_registered)
              (register_form ''alice'' ''other1234'' ''other@y.com'')"
    by (simp add: run_simps)
  have h3: "field_data (register_form ''alice'' ''other1234'' ''other@y.com'') ''username''
              = field_data (register_form ''alice'' ''pw12345678'' ''alice@x.com'') ''username''"
    by (simp add: field_data_def)
  have c: "register sample_bcrypt 1 (register_form ''alice'' ''other1234'' ''other@y.com'')
               alice_registered
             = (if RegisterForm_validate_on_submit (users alice_registered)
                     (register_form ''alice'' ''other1234'' ''other@y.com'')
                then (render_template ''userauth/register/register_username_exists.html'',
                      alice_registered)
                else (render_template ''userauth/register/register.html'', alice_registered))
         \<and> check_username (users alice_registered) ''alice''
             = (''alice'' \<notin> set (map username (users alice_registered)))
         \<and> check_email (users alice_registered) ''other@y.com''
             = (''other@y.com'' \<notin> set (map email (users alice_registered)))
         \<and> (users (snd (register sample_bcrypt 0
                          (register_form ''alice'' ''pw12345678'' ''alice@x.com'') no_data))
               \<noteq> users no_data \<longrightarrow>
               check_username (users no_data)
                 (field_data (register_form ''alice'' ''pw12345678'' ''alice@x.com'') ''username'')
             \<and> check_email (users no_data)
                 (field_data (register_form ''alice'' ''pw12345678'' ''alice@x.com'') ''email''))"
    by (rule register_twice_username_taken [OF h1 h3])
  have r: "register sample_bcrypt 1 (register_form ''alice'' ''other1234'' ''other@y.com'')
               alice_registered
             = (render_template ''userauth/register/register_username_exists.html'',
                alice_registered)"
    using c h2 by presburger
  have w: "users (snd (register sample_bcrypt 0
                    (register_form ''alice'' ''pw12345678'' ''alice@x.com'') no_data))
             \<noteq> users no_data"
    unfolding h1 by simp
  have d: "field_data (register_form ''alice'' ''pw12345678'' ''alice@x.com'') ''username'' = ''alice''
         \<and> field_data (register_form ''alice'' ''pw12345678'' ''alice@x.com'') ''email''
             = ''alice@x.com''"
    by (simp add: field_data_def)
  have m: "''alice'' \<in> set (map username (users alice_registered))
         \<and> ''other@y.com'' \<notin> set (map email (users alice_registered))"
    by simp
  from c r w d m show ?thesis
    using h1 h2 h3 by metis
qed

text \<open>
  C9. When \<open>register\<close> answers with the username-exists page or the email-exists page, the
  state after the call is the state before it: no row is written.
\<close>

theorem rejected_register_writes_nothing:
  assumes "fst (register B salt req s)
             = render_template ''userauth/register/register_username_exists.html''
         \<or> fst (register B salt req s)
             = render_template ''userauth/register/register_email_exists.html''"
  shows "snd (register B salt req s) = s"
  using assms by (auto simp: register_cases url_for_def split: if_splits)

theorem rejected_register_writes_nothing_witness:
  "fst (register sample_bcrypt 1 (register_form ''bobby'' ''pw12345678'' ''alice@x.com'')
          alice_registered)
       = render_template ''userauth/register/register_email_exists.html''
   \<and> snd (register sample_bcrypt 1 (register_form ''bobby'' ''pw12345678'' ''alice@x.com'')
            alice_registered)
       = alice_registered"
proof -
  have h: "fst (register sample_bcrypt 1 (register_form ''bobby'' ''pw12345678'' ''alice@x.com'')
                  alice_registered)
             = render_template ''userauth/register/register_email_exists.html''"
    by (simp add: run_simps)
  have c: "snd (register sample_bcrypt 1 (register_form ''bobby'' ''pw12345678'' ''alice@x.com'')
                  alice_registered)
             = alice_registered"
    by (rule rejected_register_writes_nothing [OF disjI2 [OF h]])
  from h c show ?thesis by (rule conjI)
qed

text \<open>
  C8. On a successful \<open>register\<close> the row added to the table holds, as its password, what
  \<open>bcrypt.generate_password_hash\<close> made of the submitted password. A hash of bcrypt has 60
  characters and the form lets a password have 16 at most, so what is stored is not the
  submitted password.
\<close>

theorem register_stores_hash:
  assumes "register B salt req s = (redirect (url_for ''login''), s')"
    and "length (generate_password_hash B salt (field_data req ''password'')) = 60"
  shows "users s' = users s @ [\<lparr>user_id = next_id (users s),
             username = field_data req ''username'',
             password = generate_password_hash B salt (field_data req ''password''),
             email = field_data req ''email''\<rparr>]
       \<and> password (last (users s')) \<noteq> field_data req ''password''"
proof -
  have valid: "RegisterForm_validate_on_submit (users s) req"
    using assms(1) by (auto simp: register_cases url_for_def split: if_splits)
  then have "length (field_data req ''password'') \<le> 16"
    by (simp add: RegisterForm_validate_on_submit_def Length_def)
  then have "generate_password_hash B salt (field_data req ''password'')
               \<noteq> field_data req ''password''"
    using assms(2) by auto
  moreover have "users s' = users s @ [\<lparr>user_id = next_id (users s),
             username = field_data req ''username'',
             password = generate_password_hash B salt (field_data req ''password''),
             email = field_data req ''email''\<rparr>]"
    using assms(1) by (auto simp: register_cases url_for_def split: if_splits)
  ultimately show ?thesis by simp
qed

theorem register_stores_hash_witness:
  "register sample_bcrypt 0 (register_form ''alice'' ''pw12345678'' ''alice@x.com'') no_data
       = (redirect (url_for ''login''), alice_registered)
   \<and> length (generate_password_hash sample_bcrypt 0
         (field_data (register_form ''alice'' ''pw12345678'' ''alice@x.com'') ''password'')) = 60
   \<and> users alice_registered = users no_data @ [\<lparr>user_id = next_id (users no_data),
         username = field_data (register_form ''alice'' ''pw12345678'' ''alice@x.com'') ''username'',
         password = generate_password_hash sample_bcrypt 0
           (field_data (register_form ''alice'' ''pw12345678'' ''alice@x.com'') ''password''),
         email = field_data (register_form ''alice'' ''pw12345678'' ''alice@x.com'') ''email''\<rparr>]
   \<and> password (last (users alice_registered))
       \<noteq> field_data (register_form ''alice'' ''pw12345678'' ''alice@x.com'') ''password''"
proof -
  have h1: "register sample_bcrypt 0 (register_form ''alice'' ''pw12345678'' ''alice@x.com'') no_data
              = (redirect (url_for ''login''), alice_registered)"
    by (simp add: run_simps)
  have h2: "length (generate_password_hash sample_bcrypt 0
              (field_data (register_form ''alice'' ''pw12345678'' ''alice@x.com'') ''password''))
              = 60"
    by simp
  have c: "users alice_registered = users no_data @ [\<lparr>user_id = next_id (users no_data),
         username = field_data (register_form ''alice'' ''pw12345678'' ''alice@x.com'') ''username'',
         password = generate_password_hash sample_bcrypt 0
           (field_data (register_form ''alice'' ''pw12345678'' ''alice@x.com'') ''password''),
         email = field_data (register_form ''alice'' ''pw12345678'' ''alice@x.com'') ''email''\<rparr>]
   \<and> password (last (users alice_registered))
       \<noteq> field_data (register_form ''alice'' ''pw12345678'' ''alice@x.com'') ''password''"
    by (rule register_stores_hash [OF h1 h2])
  from h1 h2 c show ?thesis by blast
qed

text \<open>
  Handled one after another, the requests keep usernames and emails unique: when no two
  rows share a username or an email, the same holds after any list of requests. The empty
  table is such a state.
\<close>

theorem usernames_and_emails_stay_unique:
  assumes "distinct (map username (users s))" and "distinct (map email (users s))"
  shows "distinct (map username (users (run B es s)))
       \<and> distinct (map email (users (run B es s)))"
  using assms
proof (induction es arbitrary: s)
  case Nil
  then show ?case by simp
next
  case (Cons e es)
  have "distinct (map username (users (snd (handle B e s))))
      \<and> distinct (map email (users (snd (handle B e s))))"
    using handle_keeps_unique [OF Cons.prems] .
  then show ?case using Cons.IH by simp
qed

text \<open>
  \<open>register\<close> is its two steps, the second in the state that the first read. The commit
  alone keeps usernames unique whatever the row and whenever it runs, by the constraint of
  the column; nothing does the same for emails.
\<close>

lemma register_two_steps:
  "register B salt req s =
     (case register_checks B salt req (users s) of
        Inl r \<Rightarrow> (r, s)
      | Inr new_user \<Rightarrow> register_commit new_user s)"
  by (simp add: register_def register_checks_def register_commit_def)

lemma register_commit_keeps_usernames_unique:
  assumes "distinct (map username (users s))"
  shows "distinct (map username (users (snd (register_commit new_user s))))"
  using assms by (cases new_user) (simp add: register_commit_def add_commit_def)

text \<open>
  C6. The claim wants usernames and emails unique at all times. For emails the code breaks
  it when two registrations overlap: the column \<open>email\<close> has no unique constraint, unlike
  \<open>username\<close>, and the check and the commit are separate steps. Two requests with different
  usernames and one email both pass their checks on the empty table; then both commits
  succeed, and the table holds the email twice.
\<close>

theorem overlapping_registers_store_one_email_twice:
  "register_checks sample_bcrypt 0 (register_form ''alice'' ''pw12345678'' ''same@x.com'')
       (users no_data)
     = Inr (''alice'', ''$2b$12$pw12345678...........................................'',
            ''same@x.com'')
   \<and> register_checks sample_bcrypt 1 (register_form ''bobby'' ''pw87654321'' ''same@x.com'')
       (users no_data)
     = Inr (''bobby'', ''$2b$12$pw87654321...........................................'',
            ''same@x.com'')
   \<and> fst (register_commit
            (''alice'', ''$2b$12$pw12345678...........................................'',
             ''same@x.com'') no_data)
       = redirect (url_for ''login'')
   \<and> fst (register_commit
            (''bobby'', ''$2b$12$pw87654321...........................................'',
             ''same@x.com'')
            (snd (register_commit
               (''alice'', ''$2b$12$pw12345678...........................................'',
                ''same@x.com'') no_data)))
       = redirect (url_for ''login'')
   \<and> map email (users (snd (register_commit
            (''bobby'', ''$2b$12$pw87654321...........................................'',
             ''same@x.com'')
            (snd (register_commit
               (''alice'', ''$2b$12$pw12345678...........................................'',
                ''same@x.com'') no_data)))))
       = [''same@x.com'', ''same@x.com'']
   \<and> \<not> distinct (map email (users (snd (register_commit
            (''bobby'', ''$2b$12$pw87654321...........................................'',
             ''same@x.com'')
            (snd (register_commit
               (''alice'', ''$2b$12$pw12345678...........................................'',
                ''same@x.com'') no_data))))))"
  by (simp add: register_checks_def register_commit_def add_commit_def check_username_iff
        check_email_iff run_simps)

subsection \<open>Login\<close>

text \<open>
  C7. In \<open>login\<close> the submitted identifier is looked up as a username first, and as an email
  only when no row has it as its username. The row found either way is the one whose stored
  hash the password is checked against, and on a match the one that is logged in.
\<close>

theorem login_lookup_username_then_email:
  assumes "LoginForm_validate_on_submit req"
    and "first (filter_by_username (users s) (field_data req ''username'')) = Some u
         \<or> (first (filter_by_username (users s) (field_data req ''username'')) = None
            \<and> first (filter_by_email (users s) (field_data req ''username'')) = Some u)"
  shows "login B req s =
           (if check_password_hash B (password u) (field_data req ''password'')
            then (redirect (url_for ''dashboard''), s\<lparr>session_user_id := Some (user_id u)\<rparr>)
            else (render_template ''userauth/login/login_wrong_info.html'', s))"
  using assms by (auto simp: login_def py_or_def)

theorem login_lookup_username_then_email_witness:
  "LoginForm_validate_on_submit (login_form ''bob@y.com'' ''carolpw123'')
   \<and> first (filter_by_username (users carol_and_bob)
         (field_data (login_form ''bob@y.com'' ''carolpw123'') ''username'')) = Some bob_row
   \<and> first (filter_by_email (users carol_and_bob)
         (field_data (login_form ''bob@y.com'' ''carolpw123'') ''username'')) = Some carol_row
   \<and> login sample_bcrypt (login_form ''bob@y.com'' ''carolpw123'') carol_and_bob
       = (render_template ''userauth/login/login_wrong_info.html'', carol_and_bob)
   \<and> LoginForm_validate_on_submit (login_form ''bob2@y.com'' ''bobspw1234'')
   \<and> first (filter_by_username (users carol_and_bob)
         (field_data (login_form ''bob2@y.com'' ''bobspw1234'') ''username'')) = None
   \<and> first (filter_by_email (users carol_and_bob)
         (field_data (login_form ''bob2@y.com'' ''bobspw1234'') ''username'')) = Some bob_row
   \<and> login sample_bcrypt (login_form ''bob2@y.com'' ''bobspw1234'') carol_and_bob
       = (redirect (url_for ''dashboard''), carol_and_bob\<lparr>session_user_id := Some 2\<rparr>)"
proof -
  have v1: "LoginForm_validate_on_submit (login_form ''bob@y.com'' ''carolpw123'')"
    by (simp add: run_simps)
  have n1: "first (filter_by_username (users carol_and_bob)
              (field_data (login_form ''bob@y.com'' ''carolpw123'') ''username'')) = Some bob_row"
    by (simp add: run_simps)
  have e1: "first (filter_by_email (users carol_and_bob)
              (field_data (login_form ''bob@y.com'' ''carolpw123'') ''username'')) = Some carol_row"
    by (simp add: run_simps)
  have c1: "login sample_bcrypt (login_form ''bob@y.com'' ''carolpw123'') carol_and_bob
       = (if check_password_hash sample_bcrypt (password bob_row)
               (field_data (login_form ''bob@y.com'' ''carolpw123'') ''password'')
          then (redirect (url_for ''dashboard''),
                carol_and_bob\<lparr>session_user_id := Some (user_id bob_row)\<rparr>)
          else (render_template ''userauth/login/login_wrong_info.html'', carol_and_bob))"
    by (rule login_lookup_username_then_email [OF v1 disjI1 [OF n1]])
  have r1: "login sample_bcrypt (login_form ''bob@y.com'' ''carolpw123'') carol_and_bob
       = (render_template ''userauth/login/login_wrong_info.html'', carol_and_bob)"
    unfolding c1 by (simp add: field_data_def)
  have v2: "LoginForm_validate_on_submit (login_form ''bob2@y.com'' ''bobspw1234'')"
    by (simp add: run_simps)
  have n2: "first (filter_by_username (users carol_and_bob)
              (field_data (login_form ''bob2@y.com'' ''bobspw1234'') ''username'')) = None"
    by (simp add: run_simps)
  have e2: "first (filter_by_email (users carol_and_bob)
              (field_data (login_form ''bob2@y.com'' ''bobspw1234'') ''username'')) = Some bob_row"
    by (simp add: run_simps)
  have c2: "login sample_bcrypt (login_form ''bob2@y.com'' ''bobspw1234'') carol_and_bob
       = (if check_password_hash sample_bcrypt (password bob_row)
               (field_data (login_form ''bob2@y.com'' ''bobspw1234'') ''password'')
          then (redirect (url_for ''dashboard''),
                carol_and_bob\<lparr>session_user_id := Some (user_id bob_row)\<rparr>)
          else (render_template ''userauth/login/login_wrong_info.html'', carol_and_bob))"
    by (rule login_lookup_username_then_email [OF v2 disjI2 [OF conjI [OF n2 e2]]])
  have r2: "login sample_bcrypt (login_form ''bob2@y.com'' ''bobspw1234'') carol_and_bob
       = (redirect (url_for ''dashboard''), carol_and_bob\<lparr>session_user_id := Some 2\<rparr>)"
    unfolding c2 by (simp add: field_data_def eval_nat_numeral)
  from v1 n1 e1 r1 v2 n2 e2 r2 show ?thesis by blast
qed

text \<open>
  C5. The spec wants one outcome of a failed login, whether no user has the identifier or
  the password is wrong. The code answers the same valid submission with the plain login
  page when the table has no such user, and with the wrong-info page when it has the user
  and the password does not match: the second branch has the answer that the first lacks.
\<close>

theorem login_tells_unknown_user_from_wrong_password:
  "login sample_bcrypt (login_form ''alice'' ''wrongpass1'') no_data
       = (render_template ''userauth/login/login.html'', no_data)
   \<and> login sample_bcrypt (login_form ''alice'' ''wrongpass1'') alice_registered
       = (render_template ''userauth/login/login_wrong_info.html'', alice_registered)
   \<and> fst (login sample_bcrypt (login_form ''alice'' ''wrongpass1'') no_data)
       \<noteq> fst (login sample_bcrypt (login_form ''alice'' ''wrongpass1'') alice_registered)"
  by (simp add: run_simps)

end
